theory Spec2Isabelle
  imports Complex_Main
begin

section \<open>Numbers and vectors\<close>

text \<open>
  The editing engine of \<^verbatim>\<open>src/components/Toolbar.tsx\<close> (component \<^verbatim>\<open>Viewer3D\<close>)
  works on three.js vectors and buffer attributes. Coordinates are modelled as real
  numbers, and the arithmetic of the source as the exact arithmetic on them. Where the
  rounding of binary64 operations and of the \<^verbatim>\<open>Float32Array\<close> storage decides a
  property, the code is modelled a second time with every rounding written out: the
  scale brush (\<open>deformVertexScale64\<close>) and the printing of a number from \<open>10 ^ 21\<close>
  on (\<open>exponentNotation\<close>). A vertex buffer (\<^verbatim>\<open>geometry.attributes.position\<close>) is the list of its vertices,
  \<^verbatim>\<open>position.count\<close> its length.
\<close>

datatype Vector3 = Vector3 (vx: real) (vy: real) (vz: real)

definition origin :: Vector3 where
  "origin = Vector3 0 0 0"

fun add :: "Vector3 \<Rightarrow> Vector3 \<Rightarrow> Vector3" where
  "add (Vector3 a b c) (Vector3 d e f) = Vector3 (a + d) (b + e) (c + f)"

fun sub :: "Vector3 \<Rightarrow> Vector3 \<Rightarrow> Vector3" where
  "sub (Vector3 a b c) (Vector3 d e f) = Vector3 (a - d) (b - e) (c - f)"

fun multiplyScalar :: "Vector3 \<Rightarrow> real \<Rightarrow> Vector3" where
  "multiplyScalar (Vector3 a b c) k = Vector3 (a * k) (b * k) (c * k)"

definition divideScalar :: "Vector3 \<Rightarrow> real \<Rightarrow> Vector3" where
  "divideScalar v k = multiplyScalar v (1 / k)"

fun dot :: "Vector3 \<Rightarrow> Vector3 \<Rightarrow> real" where
  "dot (Vector3 a b c) (Vector3 d e f) = a * d + b * e + c * f"

fun cross :: "Vector3 \<Rightarrow> Vector3 \<Rightarrow> Vector3" where
  "cross (Vector3 a b c) (Vector3 d e f) =
     Vector3 (b * f - c * e) (c * d - a * f) (a * e - b * d)"

fun distanceToSquared :: "Vector3 \<Rightarrow> Vector3 \<Rightarrow> real" where
  "distanceToSquared (Vector3 a b c) (Vector3 d e f) =
     (a - d) * (a - d) + (b - e) * (b - e) + (c - f) * (c - f)"

definition distanceTo :: "Vector3 \<Rightarrow> Vector3 \<Rightarrow> real" where
  "distanceTo v w = sqrt (distanceToSquared v w)"

text \<open>\<^verbatim>\<open>v.lerp(w, alpha)\<close>: each component moves by \<open>alpha\<close> times its difference.\<close>

fun lerp :: "Vector3 \<Rightarrow> Vector3 \<Rightarrow> real \<Rightarrow> Vector3" where
  "lerp (Vector3 a b c) (Vector3 d e f) alpha =
     Vector3 (a + (d - a) * alpha) (b + (e - b) * alpha) (c + (f - c) * alpha)"

definition vlength :: "Vector3 \<Rightarrow> real" where
  "vlength v = sqrt (dot v v)"

text \<open>\<^verbatim>\<open>v.normalize()\<close> is \<^verbatim>\<open>v.divideScalar(v.length() || 1)\<close>.\<close>

definition normalize :: "Vector3 \<Rightarrow> Vector3" where
  "normalize v = divideScalar v (if vlength v = 0 then 1 else vlength v)"

section \<open>Spatial queries\<close>

text \<open>
  \<^verbatim>\<open>findNeighborVertices(vertexIndex, geometry)\<close> scans the whole buffer in index order
  and collects every index other than \<open>vertexIndex\<close> itself whose vertex lies closer
  than the constant 0.1. The callers pass an index of the buffer.
\<close>

definition findNeighborVertices :: "nat \<Rightarrow> Vector3 list \<Rightarrow> nat list" where
  "findNeighborVertices vertexIndex position =
     filter (\<lambda>i. i \<noteq> vertexIndex \<and> distanceTo (position ! vertexIndex) (position ! i) < 1 / 10)
       [0..<length position]"

text \<open>
  \<^verbatim>\<open>calculateAveragePosition(indices, position)\<close> sums the vertices at the given indices
  and divides by their number when there is at least one; the sum starts at the zero
  vector of \<^verbatim>\<open>new THREE.Vector3()\<close>.
\<close>

definition calculateAveragePosition :: "nat list \<Rightarrow> Vector3 list \<Rightarrow> Vector3" where
  "calculateAveragePosition indices position =
     (let avg = fold (\<lambda>index avg. add avg (position ! index)) indices origin
      in if length indices > 0 then divideScalar avg (real (length indices)) else avg)"

section \<open>Deformation\<close>

datatype Mode = View | Pick | Measure | Push | Smooth | Scale | Margin | Occlusal | Section | Note

text \<open>
  One round of the loop of \<^verbatim>\<open>applyDeformation\<close>, for the index \<open>i\<close>: the vertex is read
  from the buffer as it is now, and written back when it lies closer to \<open>point\<close> than
  \<open>radius\<close>. The \<^verbatim>\<open>switch\<close> has no default: in any other mode the vertex is written
  back as it was read.
\<close>

definition deformVertex ::
  "Mode \<Rightarrow> Vector3 \<Rightarrow> real \<Rightarrow> real \<Rightarrow> Vector3 list \<Rightarrow> nat \<Rightarrow> Vector3 list \<Rightarrow> Vector3 list" where
  "deformVertex mode point radius strength normal i position =
     (let vertex = position ! i;
          distance = distanceTo vertex point
      in if distance < radius then
           (let influence = 1 - distance / radius;
                vertex' =
                  (case mode of
                     Push \<Rightarrow> add vertex (multiplyScalar (normal ! i) (strength * influence))
                   | Smooth \<Rightarrow>
                       (let neighbors = findNeighborVertices i position;
                            avgPosition = calculateAveragePosition neighbors position
                        in lerp vertex avgPosition (strength * influence))
                   | Scale \<Rightarrow>
                       add (multiplyScalar (sub vertex point) (1 + strength * influence)) point
                   | _ \<Rightarrow> vertex)
            in position[i := vertex'])
         else position)"

text \<open>The loop \<^verbatim>\<open>for (let i = 0; i < position.count; i++)\<close> over the buffer it mutates.\<close>

definition deformLoop ::
  "Mode \<Rightarrow> Vector3 \<Rightarrow> real \<Rightarrow> real \<Rightarrow> Vector3 list \<Rightarrow> Vector3 list \<Rightarrow> Vector3 list" where
  "deformLoop mode point radius strength normal position =
     fold (deformVertex mode point radius strength normal) [0..<length position] position"

text \<open>The buffer as the loop has left it when it reaches the index \<open>i\<close>.\<close>

definition bufferBefore ::
  "Mode \<Rightarrow> Vector3 \<Rightarrow> real \<Rightarrow> real \<Rightarrow> Vector3 list \<Rightarrow> nat \<Rightarrow> Vector3 list \<Rightarrow> Vector3 list" where
  "bufferBefore mode point radius strength normal i position =
     fold (deformVertex mode point radius strength normal) [0..<i] position"

text \<open>
  \<^verbatim>\<open>geometry.computeVertexNormals()\<close> of three.js, on the non-indexed geometry that
  \<^verbatim>\<open>STLLoader.parse\<close> returns (three vertices for every triangle): each triangle's
  three vertices receive the cross product of two of its edges, and
  \<^verbatim>\<open>normalizeNormals\<close> then scales every normal to length one. The model covers the
  whole triangles of the buffer.
\<close>

fun faceNormals :: "Vector3 list \<Rightarrow> Vector3 list" where
  "faceNormals (pA # pB # pC # rest) =
     (let cb = cross (sub pC pB) (sub pA pB) in cb # cb # cb # faceNormals rest)"
| "faceNormals _ = []"

definition computeVertexNormals :: "Vector3 list \<Rightarrow> Vector3 list" where
  "computeVertexNormals position = map normalize (faceNormals position)"

text \<open>
  The positions all updates would have if each vertex were computed from the buffer as
  it stood when the call began (the snapshot pattern the specification describes):
  the same round for every index, always on the initial buffer.
\<close>

definition deformSnapshot ::
  "Mode \<Rightarrow> Vector3 \<Rightarrow> real \<Rightarrow> real \<Rightarrow> Vector3 list \<Rightarrow> Vector3 list \<Rightarrow> Vector3 list" where
  "deformSnapshot mode point radius strength normal position =
     map (\<lambda>i. deformVertex mode point radius strength normal i position ! i)
       [0..<length position]"

section \<open>Rounded arithmetic\<close>

text \<open>
  A JavaScript number is a binary64 number, and \<^verbatim>\<open>position.setXYZ\<close> stores into a
  \<^verbatim>\<open>Float32Array\<close>. A number of a binary format with \<open>p\<close> significant bits and least
  exponent \<open>emin\<close> is a real \<open>n * 2 ^ q\<close> with an integer \<open>n\<close> of fewer than \<open>p + 1\<close>
  bits and \<open>q\<close> not below \<open>emin - p + 1\<close>. \<open>roundTo p emin x\<close> is the number of the
  format nearest to \<open>x\<close>, the one with the even \<open>n\<close> of two equally near: the rounding
  of every IEEE 754 operation and of a store into a typed array. \<open>exponentOf x\<close> is the
  exponent \<open>e\<close> with \<open>2 ^ e \<le> \<bar>x\<bar> < 2 ^ (e + 1)\<close>. The overflow to \<^verbatim>\<open>Infinity\<close> beyond the
  largest number of the format is not modelled.
\<close>

definition pow2 :: "int \<Rightarrow> real" where
  "pow2 e = (if 0 \<le> e then 2 ^ nat e else 1 / 2 ^ nat (- e))"

definition roundTiesToEven :: "real \<Rightarrow> int" where
  "roundTiesToEven x =
     (let f = \<lfloor>x\<rfloor>; d = x - of_int f
      in if d < 1 / 2 then f else if 1 / 2 < d then f + 1 else if even f then f else f + 1)"

definition exponentOf :: "real \<Rightarrow> int" where
  "exponentOf x = \<lfloor>log 2 \<bar>x\<bar>\<rfloor>"

definition roundTo :: "nat \<Rightarrow> int \<Rightarrow> real \<Rightarrow> real" where
  "roundTo p emin x =
     (if x = 0 then 0
      else
        (let e = max (exponentOf x) emin;
             q = pow2 (e - int p + 1)
         in of_int (roundTiesToEven (x / q)) * q))"

definition round64 :: "real \<Rightarrow> real" where
  "round64 = roundTo 53 (- 1022)"

definition round32 :: "real \<Rightarrow> real" where
  "round32 = roundTo 24 (- 126)"

text \<open>
  The vector operations of three.js that the scale brush uses, each arithmetic
  operation rounding its exact result to binary64: \<^verbatim>\<open>sub\<close>, \<^verbatim>\<open>add\<close> and
  \<^verbatim>\<open>multiplyScalar\<close> work on each component, \<^verbatim>\<open>distanceToSquared\<close> returns
  \<^verbatim>\<open>dx * dx + dy * dy + dz * dz\<close>, and \<^verbatim>\<open>distanceTo\<close> its \<^verbatim>\<open>Math.sqrt\<close>.
\<close>

fun sub64 :: "Vector3 \<Rightarrow> Vector3 \<Rightarrow> Vector3" where
  "sub64 (Vector3 a b c) (Vector3 d e f) =
     Vector3 (round64 (a - d)) (round64 (b - e)) (round64 (c - f))"

fun add64 :: "Vector3 \<Rightarrow> Vector3 \<Rightarrow> Vector3" where
  "add64 (Vector3 a b c) (Vector3 d e f) =
     Vector3 (round64 (a + d)) (round64 (b + e)) (round64 (c + f))"

fun multiplyScalar64 :: "Vector3 \<Rightarrow> real \<Rightarrow> Vector3" where
  "multiplyScalar64 (Vector3 a b c) k = Vector3 (round64 (a * k)) (round64 (b * k)) (round64 (c * k))"

fun distanceToSquared64 :: "Vector3 \<Rightarrow> Vector3 \<Rightarrow> real" where
  "distanceToSquared64 (Vector3 a b c) (Vector3 d e f) =
     (let dx = round64 (a - d); dy = round64 (b - e); dz = round64 (c - f)
      in round64 (round64 (round64 (dx * dx) + round64 (dy * dy)) + round64 (dz * dz)))"

definition distanceTo64 :: "Vector3 \<Rightarrow> Vector3 \<Rightarrow> real" where
  "distanceTo64 v w = round64 (sqrt (distanceToSquared64 v w))"

text \<open>\<^verbatim>\<open>position.setXYZ(i, x, y, z)\<close>: each coordinate is stored as a binary32 number.\<close>

fun setXYZ32 :: "Vector3 \<Rightarrow> Vector3" where
  "setXYZ32 (Vector3 a b c) = Vector3 (round32 a) (round32 b) (round32 c)"

text \<open>
  One round of the loop of \<^verbatim>\<open>applyDeformation\<close> under the scale brush, and the loop,
  with the rounding of every operation and of the store: the vertex is written back as
  \<^verbatim>\<open>vertex.sub(point).multiplyScalar(1 + (strength * influence)).add(point)\<close>. The
  buffer holds binary32 numbers, the pick point, the radius and the strength are
  binary64 numbers.
\<close>

definition deformVertexScale64 ::
  "Vector3 \<Rightarrow> real \<Rightarrow> real \<Rightarrow> nat \<Rightarrow> Vector3 list \<Rightarrow> Vector3 list" where
  "deformVertexScale64 point radius strength i position =
     (let vertex = position ! i;
          distance = distanceTo64 vertex point
      in if distance < radius then
           (let influence = round64 (1 - round64 (distance / radius));
                vertex' =
                  add64 (multiplyScalar64 (sub64 vertex point)
                           (round64 (1 + round64 (strength * influence)))) point
            in position[i := setXYZ32 vertex'])
         else position)"

definition deformLoopScale64 :: "Vector3 \<Rightarrow> real \<Rightarrow> real \<Rightarrow> Vector3 list \<Rightarrow> Vector3 list" where
  "deformLoopScale64 point radius strength position =
     fold (deformVertexScale64 point radius strength) [0..<length position] position"

text \<open>
  A number that a \<^verbatim>\<open>Float32Array\<close> holds, a vertex of such numbers, and a vertex whose
  difference from the pick point is computed without rounding.
\<close>

definition float32Value :: "real \<Rightarrow> bool" where
  "float32Value x \<longleftrightarrow> round32 x = x"

definition float32Vector :: "Vector3 \<Rightarrow> bool" where
  "float32Vector v \<longleftrightarrow> float32Value (vx v) \<and> float32Value (vy v) \<and> float32Value (vz v)"

definition exactDifference :: "Vector3 \<Rightarrow> Vector3 \<Rightarrow> bool" where
  "exactDifference v p \<longleftrightarrow>
     round64 (vx v - vx p) = vx v - vx p \<and>
     round64 (vy v - vy p) = vy v - vy p \<and>
     round64 (vz v - vz p) = vz v - vz p"

section \<open>Colours\<close>

text \<open>
  \<^verbatim>\<open>new THREE.Color().setHSL(h, s, l)\<close> of three.js, with its helper \<^verbatim>\<open>hue2rgb\<close>;
  a colour is its three components r, g, b.
\<close>

datatype Color = Color real real real

definition euclideanModulo :: "real \<Rightarrow> real \<Rightarrow> real" where
  "euclideanModulo n m = n - m * of_int \<lfloor>n / m\<rfloor>"

definition clamp :: "real \<Rightarrow> real \<Rightarrow> real \<Rightarrow> real" where
  "clamp v lo hi = max lo (min hi v)"

definition hue2rgb :: "real \<Rightarrow> real \<Rightarrow> real \<Rightarrow> real" where
  "hue2rgb p q t =
     (let t1 = (if t < 0 then t + 1 else t);
          t2 = (if t1 > 1 then t1 - 1 else t1)
      in if t2 < 1 / 6 then p + (q - p) * 6 * t2
         else if t2 < 1 / 2 then q
         else if t2 < 2 / 3 then p + (q - p) * 6 * (2 / 3 - t2)
         else p)"

definition setHSL :: "real \<Rightarrow> real \<Rightarrow> real \<Rightarrow> Color" where
  "setHSL h0 s0 l0 =
     (let h = euclideanModulo h0 1;
          s = clamp s0 0 1;
          l = clamp l0 0 1
      in if s = 0 then Color l l l
         else
           (let p = (if l \<le> 1 / 2 then l * (1 + s) else l + s - l * s);
                q = 2 * l - p
            in Color (hue2rgb q p (h + 1 / 3)) (hue2rgb q p h) (hue2rgb q p (h - 1 / 3))))"

section \<open>The viewer's state\<close>

text \<open>
  A \<^verbatim>\<open>BufferGeometry\<close> with its attributes; the colour attribute exists once an
  occlusal analysis has set it (or the decoder supplied one).
\<close>

record BufferGeometry =
  position :: "Vector3 list"
  normal :: "Vector3 list"
  color :: "Color list option"

text \<open>
  A \<^verbatim>\<open>THREE.Plane\<close>. Planes are shared objects (the plane helper and the material's
  \<^verbatim>\<open>clippingPlanes\<close> point to the plane that \<^verbatim>\<open>crossSectionPlaneRef\<close> holds), so a
  plane carries a number that identifies it.
\<close>

record Plane =
  plane_id :: nat
  plane_normal :: Vector3
  plane_constant :: real

record Material =
  vertexColors :: bool
  clippingPlanes :: "nat list"

record Mesh =
  geometry :: BufferGeometry
  material :: Material
  mesh_position :: Vector3

datatype SpriteMap = NoMap | CanvasTexture string

record Sprite =
  sprite_map :: SpriteMap
  sprite_position :: Vector3
  sprite_scale :: Vector3

text \<open>
  What the scene holds. A scene object is its identity (a number given when the object is
  created) and what it is: the two lights, the mesh of a loaded file, a marker sphere
  (a \<^verbatim>\<open>THREE.Mesh\<close> flagged \<^verbatim>\<open>isPoint\<close>), the red measurement line between two points,
  the sprite of a distance label, the green margin polyline, the sprite of a note, and
  the helper of a clip plane.
\<close>

datatype ObjectKind =
    AmbientLight
  | DirectionalLight
  | ModelMesh
  | PointMesh Vector3
  | MeasureLine Vector3 Vector3
  | DistanceLabel Sprite
  | MarginPolyline "Vector3 list"
  | NoteLabel Sprite
  | PlaneHelper nat

type_synonym Object3D = "nat \<times> ObjectKind"

record Point =
  point_position :: Vector3
  marker :: Object3D

record MeasurementLine =
  line :: Object3D
  label :: Object3D

record MarginLine =
  points :: "Vector3 list"
  margin_line :: Object3D

record NoteRec =
  note_position :: Vector3
  note_text :: string
  note_sprite :: Object3D

record Toast =
  title :: string
  description :: "string option"
  destructive :: bool

text \<open>
  The state of \<^verbatim>\<open>Viewer3D\<close> once its scene, camera and renderer exist: the \<^verbatim>\<open>mode\<close>
  property, the children of the scene, the refs and the React state variables, and the
  toasts sent so far. \<open>nextId\<close> numbers the objects created.
\<close>

record ViewerState =
  mode :: Mode
  nextId :: nat
  children :: "Object3D list"
  activeMesh :: "(Object3D \<times> Mesh) option"
  measureStartPoint :: "Point option"
  measureLine :: "MeasurementLine option"
  marginLine :: "MarginLine option"
  marginPoints :: "Vector3 list"
  crossSectionValue :: real
  crossSectionPlane :: "Plane option"
  planeHelper :: "Object3D option"
  note_list :: "NoteRec list"
  localClippingEnabled :: bool
  toasts :: "Toast list"

text \<open>The state after the scene set-up effect: two lights, nothing loaded.\<close>

definition initialState :: "Mode \<Rightarrow> ViewerState" where
  "initialState m =
     \<lparr>mode = m, nextId = 2, children = [(0, AmbientLight), (1, DirectionalLight)],
      activeMesh = None, measureStartPoint = None, measureLine = None, marginLine = None,
      marginPoints = [], crossSectionValue = 0, crossSectionPlane = None,
      planeHelper = None, note_list = [], localClippingEnabled = False, toasts = []\<rparr>"

text \<open>
  \<^verbatim>\<open>new\<close> followed by \<^verbatim>\<open>scene.add\<close>: the object gets the next number and goes to the
  end of the children. \<^verbatim>\<open>scene.remove(object)\<close> takes out the first child that is
  this object and leaves the others.
\<close>

definition sceneAdd :: "ObjectKind \<Rightarrow> ViewerState \<Rightarrow> Object3D \<times> ViewerState" where
  "sceneAdd k s =
     ((nextId s, k), s\<lparr>children := children s @ [(nextId s, k)], nextId := Suc (nextId s)\<rparr>)"

definition sceneRemove :: "Object3D \<Rightarrow> ViewerState \<Rightarrow> ViewerState" where
  "sceneRemove obj s = s\<lparr>children := remove1 obj (children s)\<rparr>"

definition toast :: "Toast \<Rightarrow> ViewerState \<Rightarrow> ViewerState" where
  "toast t s = s\<lparr>toasts := toasts s @ [t]\<rparr>"

section \<open>Operations on the active mesh\<close>

text \<open>
  \<^verbatim>\<open>applyDeformation(point, radius, strength)\<close>: nothing without an active mesh;
  otherwise the loop over the position buffer, then \<^verbatim>\<open>computeVertexNormals\<close> on the
  buffer the loop left. The brush is the \<^verbatim>\<open>mode\<close> property.
\<close>

definition applyDeformation :: "Vector3 \<Rightarrow> real \<Rightarrow> real \<Rightarrow> ViewerState \<Rightarrow> ViewerState" where
  "applyDeformation point radius strength s =
     (case activeMesh s of
        None \<Rightarrow> s
      | Some (obj, m) \<Rightarrow>
          (let g = geometry m;
               position' = deformLoop (mode s) point radius strength (normal g) (position g);
               g' = g\<lparr>position := position', normal := computeVertexNormals position'\<rparr>
           in s\<lparr>activeMesh := Some (obj, m\<lparr>geometry := g'\<rparr>)\<rparr>))"

text \<open>
  \<^verbatim>\<open>performOcclusalAnalysis(point)\<close>: a fresh colour attribute with one colour for each
  vertex, of hue 0 when the vertex is closer to \<open>point\<close> than 0.5 and of hue 0.6
  otherwise, and the material switched to vertex colours.
\<close>

definition occlusalColors :: "Vector3 \<Rightarrow> Vector3 list \<Rightarrow> Color list" where
  "occlusalColors point pos =
     map (\<lambda>vertex. setHSL (if distanceTo vertex point < 1 / 2 then 0 else 6 / 10) 1 (1 / 2))
       pos"

definition performOcclusalAnalysis :: "Vector3 \<Rightarrow> ViewerState \<Rightarrow> ViewerState" where
  "performOcclusalAnalysis point s =
     (case activeMesh s of
        None \<Rightarrow> s
      | Some (obj, m) \<Rightarrow>
          s\<lparr>activeMesh :=
              Some (obj, m\<lparr>geometry := (geometry m)\<lparr>color := Some (occlusalColors point (position (geometry m)))\<rparr>,
                           material := (material m)\<lparr>vertexColors := True\<rparr>\<rparr>)\<rparr>)"

section \<open>Margin line and cross-section\<close>

definition createMarginLine :: "Vector3 list \<Rightarrow> ViewerState \<Rightarrow> ViewerState" where
  "createMarginLine pts s =
     (if length pts < 2 then s
      else
        (let s1 = (case marginLine s of None \<Rightarrow> s | Some ml \<Rightarrow> sceneRemove (margin_line ml) s);
             (ln, s2) = sceneAdd (MarginPolyline pts) s1
         in s2\<lparr>marginLine := Some \<lparr>points = pts, margin_line = ln\<rparr>\<rparr>))"

text \<open>
  \<^verbatim>\<open>createCrossSection(point, normal)\<close>: the plane of
  \<^verbatim>\<open>setFromNormalAndCoplanarPoint\<close> has the given normal and the constant
  \<open>- (point \<cdot> normal)\<close>; its helper replaces the former one in the scene, and the active
  mesh's material clips by this plane alone.
\<close>

definition createCrossSection :: "Vector3 \<Rightarrow> Vector3 \<Rightarrow> ViewerState \<Rightarrow> ViewerState" where
  "createCrossSection point nrm s =
     (case activeMesh s of
        None \<Rightarrow> s
      | Some (obj, m) \<Rightarrow>
          (let s1 = (case planeHelper s of None \<Rightarrow> s | Some h \<Rightarrow> sceneRemove h s);
               plane = \<lparr>plane_id = nextId s1, plane_normal = nrm, plane_constant = - dot point nrm\<rparr>;
               (helper, s2) = sceneAdd (PlaneHelper (plane_id plane)) (s1\<lparr>nextId := Suc (nextId s1)\<rparr>)
           in s2\<lparr>planeHelper := Some helper,
                 crossSectionPlane := Some plane,
                 activeMesh := Some (obj, m\<lparr>material := (material m)\<lparr>clippingPlanes := [plane_id plane]\<rparr>\<rparr>),
                 localClippingEnabled := True\<rparr>))"

text \<open>
  The effect with the dependencies \<^verbatim>\<open>[crossSectionValue, mode]\<close>: in section mode, with
  a plane and a helper, the plane's constant becomes the negated slider value.
\<close>

definition crossSectionEffect :: "ViewerState \<Rightarrow> ViewerState" where
  "crossSectionEffect s =
     (case crossSectionPlane s of
        None \<Rightarrow> s
      | Some plane \<Rightarrow>
          (if mode s = Section \<and> planeHelper s \<noteq> None
           then s\<lparr>crossSectionPlane := Some (plane\<lparr>plane_constant := - crossSectionValue s\<rparr>)\<rparr>
           else s))"

text \<open>
  React runs an effect after a render in which one of its dependencies has changed. So
  \<^verbatim>\<open>setCrossSectionValue(v)\<close> (the slider's \<^verbatim>\<open>onValueChange\<close>, and the reset after a
  section pick) runs the effect when \<open>v\<close> differs from the value held, and a change of
  the \<^verbatim>\<open>mode\<close> property does when the mode differs.
\<close>

definition setCrossSectionValue :: "real \<Rightarrow> ViewerState \<Rightarrow> ViewerState" where
  "setCrossSectionValue v s =
     (if v = crossSectionValue s then s else crossSectionEffect (s\<lparr>crossSectionValue := v\<rparr>))"


section \<open>Loading a file\<close>

text \<open>
  \<^verbatim>\<open>geometry.boundingBox.getCenter\<close> after \<^verbatim>\<open>computeBoundingBox\<close>: the middle of the
  componentwise minimum and maximum, the zero vector for an empty box.
\<close>

definition boundingBoxCenter :: "Vector3 list \<Rightarrow> Vector3" where
  "boundingBoxCenter ps =
     (case ps of
        [] \<Rightarrow> origin
      | p # rest \<Rightarrow>
          multiplyScalar
            (add (Vector3 (fold min (map vx rest) (vx p)) (fold min (map vy rest) (vy p))
                          (fold min (map vz rest) (vz p)))
                 (Vector3 (fold max (map vx rest) (vx p)) (fold max (map vy rest) (vy p))
                          (fold max (map vz rest) (vz p))))
            (1 / 2))"

text \<open>
  \<^verbatim>\<open>child instanceof THREE.Mesh && !child.isPoint\<close>: of the objects of the scene only the
  mesh of a loaded file (markers are flagged, lines, sprites, lights and the plane
  helper are no \<^verbatim>\<open>Mesh\<close>).
\<close>

definition isPreviousModel :: "Object3D \<Rightarrow> bool" where
  "isPreviousModel child = (snd child = ModelMesh)"

text \<open>
  \<^verbatim>\<open>children.forEach\<close> visits the indices below the length the array had at the start
  and skips an index that the array no longer has; the callback removes the child it
  was given from the same array.
\<close>

definition clearPreviousModel :: "Object3D list \<Rightarrow> Object3D list" where
  "clearPreviousModel cs =
     fold (\<lambda>k cs'. if k < length cs' \<and> isPreviousModel (cs' ! k) then remove1 (cs' ! k) cs' else cs')
       [0..<length cs] cs"

text \<open>
  The \<^verbatim>\<open>onload\<close> callback of the file reader, on what \<^verbatim>\<open>loader.parse\<close> made of the
  file: \<open>None\<close> when it threw. The new mesh becomes the active one, is moved by its
  bounding box's centre, and is added after the meshes of earlier files are cleared.
\<close>

definition loadSTL :: "BufferGeometry option \<Rightarrow> ViewerState \<Rightarrow> ViewerState" where
  "loadSTL parsed s =
     (case parsed of
        None \<Rightarrow>
          toast \<lparr>title = ''Error loading STL file'',
                 description = Some ''The file might be corrupted or invalid'',
                 destructive = True\<rparr> s
      | Some g \<Rightarrow>
          (let mesh = \<lparr>geometry = g,
                       material = \<lparr>vertexColors = False, clippingPlanes = []\<rparr>,
                       mesh_position = sub origin (boundingBoxCenter (position g))\<rparr>;
               obj = (nextId s, ModelMesh)
           in s\<lparr>activeMesh := Some (obj, mesh),
                 nextId := Suc (nextId s),
                 children := clearPreviousModel (children s) @ [obj]\<rparr>))"

section \<open>Labels\<close>

text \<open>
  The decimal digits of a natural number, as \<^verbatim>\<open>ToString\<close> writes an integer.
\<close>

definition digitChar :: "nat \<Rightarrow> char" where
  "digitChar n = ''0123456789'' ! n"

fun showNat :: "nat \<Rightarrow> string" where
  "showNat n = (if n < 10 then [digitChar n] else showNat (n div 10) @ [digitChar (n mod 10)])"

declare showNat.simps [simp del]

text \<open>
  \<^verbatim>\<open>Number::toString\<close> of ECMAScript for a binary64 number \<open>x\<close> from \<open>10 ^ 21\<close> on, which
  is an integer of \<open>n\<close> decimal digits, \<open>n\<close> above 21: the exponent notation. The digits
  are those of the integer \<open>s\<close> of the least number \<open>k\<close> of digits for which
  \<open>s * 10 ^ (n - k)\<close> rounds to \<open>x\<close>. For each \<open>k\<close> the two integers next to
  \<open>x / 10 ^ (n - k)\<close> are the candidates, the nearer one first and the even one first
  of two equally near (the choice the standard recommends). With all \<open>n\<close> digits the
  number itself is a candidate, so the search ends there at the latest. A candidate
  \<open>10 ^ k\<close> stands for the power of ten above \<open>x\<close>: one digit more before the point.
  The output is the first digit, a point and the other digits when there are any,
  then \<^verbatim>\<open>e+\<close> and the decimal exponent.
\<close>

definition closestFirst :: "real \<Rightarrow> real \<Rightarrow> nat \<Rightarrow> nat list" where
  "closestFirst x sc lo =
     (let below = x - real lo * sc; above = real (Suc lo) * sc - x
      in if below < above \<or> (below = above \<and> even lo) then [lo, Suc lo] else [Suc lo, lo])"

definition digitCandidates :: "real \<Rightarrow> nat \<Rightarrow> (nat \<times> nat) list" where
  "digitCandidates x n =
     concat (map (\<lambda>k. map (Pair k) (closestFirst x (10 ^ (n - k)) (nat \<lfloor>x / 10 ^ (n - k)\<rfloor>)))
               [1..<Suc n])"

definition roundTrips :: "real \<Rightarrow> nat \<Rightarrow> nat \<times> nat \<Rightarrow> bool" where
  "roundTrips x n = (\<lambda>(k, s). round64 (real s * 10 ^ (n - k)) = x)"

definition shortestDigits :: "real \<Rightarrow> nat \<Rightarrow> nat \<times> nat" where
  "shortestDigits x n =
     (case find (roundTrips x n) (digitCandidates x n) of
        Some ks \<Rightarrow> ks
      | None \<Rightarrow> (n, nat \<lfloor>x\<rfloor>))"

definition exponentNotation :: "real \<Rightarrow> string" where
  "exponentNotation x =
     (let n = length (showNat (nat \<lfloor>x\<rfloor>));
          (k, s) = shortestDigits x n;
          (s', n') = (if s = 10 ^ k then (10 ^ (k - 1), Suc n) else (s, n));
          digits = showNat s'
      in (if k = 1 then digits else hd digits # ''.'' @ tl digits) @ ''e+'' @ showNat (n' - 1))"

text \<open>
  \<^verbatim>\<open>x.toFixed(2)\<close> of ECMAScript for a finite number \<open>x\<close>: a minus sign for a negative
  number, then, for the absolute value \<open>a\<close>: from \<open>10 ^ 21\<close> on the exponent notation of
  the binary64 number; below, with \<open>n\<close> the integer nearest to \<open>100 * a\<close> (the larger
  one of two equally near), the digits of \<open>n\<close> with a point before the last two,
  filled up with zeros to three digits.
\<close>

definition toFixed2 :: "real \<Rightarrow> string" where
  "toFixed2 x =
     (let a = \<bar>x\<bar>;
          m = (if 10 ^ 21 \<le> a then exponentNotation (round64 a)
               else (let n = nat \<lfloor>a * 100 + 1 / 2\<rfloor>
                     in showNat (n div 100) @ ''.'' @
                        [digitChar (n div 10 mod 10), digitChar (n mod 10)]))
      in (if x < 0 then ''-'' else '''') @ m)"

text \<open>
  \<^verbatim>\<open>createDistanceLabel(distance, position)\<close>. \<open>context2d\<close> tells whether
  \<^verbatim>\<open>canvas.getContext('2d')\<close> gave a context; without one the result is the bare
  \<^verbatim>\<open>new THREE.Sprite()\<close>, at the origin and of unit scale.
\<close>

definition createDistanceLabel :: "bool \<Rightarrow> real \<Rightarrow> Vector3 \<Rightarrow> Sprite" where
  "createDistanceLabel context2d distance pos =
     (if \<not> context2d then
        \<lparr>sprite_map = NoMap, sprite_position = origin, sprite_scale = Vector3 1 1 1\<rparr>
      else
        \<lparr>sprite_map = CanvasTexture (toFixed2 distance @ '' units''),
         sprite_position = pos,
         sprite_scale = Vector3 (1 / 2) (1 / 4) 1\<rparr>)"

definition createNoteLabel :: "bool \<Rightarrow> string \<Rightarrow> Vector3 \<Rightarrow> Sprite" where
  "createNoteLabel context2d txt pos =
     (if \<not> context2d then
        \<lparr>sprite_map = NoMap, sprite_position = origin, sprite_scale = Vector3 1 1 1\<rparr>
      else
        \<lparr>sprite_map = CanvasTexture txt,
         sprite_position = pos,
         sprite_scale = Vector3 1 (1 / 2) 1\<rparr>)"

section \<open>The click handler\<close>

text \<open>
  What a click brings from outside: the point of the first intersection of the ray with
  the scene (\<open>None\<close> when the ray hits nothing), whether a canvas gives a 2D context,
  and the answer to the \<^verbatim>\<open>prompt\<close> of the note tool (\<open>None\<close> when it is cancelled).
\<close>

record ClickEvent =
  hit :: "Vector3 option"
  context2d :: bool
  promptText :: "string option"

text \<open>
  The \<^verbatim>\<open>measure\<close> case of \<^verbatim>\<open>handleClick\<close>. Without a start point the click places a
  marker and stores point and marker. With one, it places a second marker, builds the
  line and the label at the midpoint, takes the former line and label out of the scene,
  shows the new ones, reports the distance, and removes both markers again.
\<close>

definition handleClick_measure :: "bool \<Rightarrow> Vector3 \<Rightarrow> ViewerState \<Rightarrow> ViewerState" where
  "handleClick_measure ctx p s =
     (case measureStartPoint s of
        None \<Rightarrow>
          (let (pointMesh, s1) = sceneAdd (PointMesh p) s
           in s1\<lparr>measureStartPoint := Some \<lparr>point_position = p, marker = pointMesh\<rparr>\<rparr>)
      | Some start \<Rightarrow>
          (let (pointMesh, s1) = sceneAdd (PointMesh p) s;
               distance = distanceTo (point_position start) p;
               midPoint = multiplyScalar (add (point_position start) p) (1 / 2);
               sprite = createDistanceLabel ctx distance midPoint;
               s2 = (case measureLine s of
                       None \<Rightarrow> s1
                     | Some ml \<Rightarrow> sceneRemove (label ml) (sceneRemove (line ml) s1));
               (ln, s3) = sceneAdd (MeasureLine (point_position start) p) s2;
               (lb, s4) = sceneAdd (DistanceLabel sprite) s3;
               s5 = toast \<lparr>title = ''Measurement'',
                           description = Some (''Distance: '' @ toFixed2 distance @ '' units''),
                           destructive = False\<rparr>
                      (s4\<lparr>measureLine := Some \<lparr>line = ln, label = lb\<rparr>\<rparr>);
               s6 = sceneRemove pointMesh (sceneRemove (marker start) s5)
           in s6\<lparr>measureStartPoint := None\<rparr>))"

definition handleClick_note :: "bool \<Rightarrow> string option \<Rightarrow> Vector3 \<Rightarrow> ViewerState \<Rightarrow> ViewerState" where
  "handleClick_note ctx answer p s =
     (case answer of
        None \<Rightarrow> s
      | Some noteText \<Rightarrow>
          (if noteText = [] then s
           else
             (let (sprite, s1) = sceneAdd (NoteLabel (createNoteLabel ctx noteText p)) s
              in toast \<lparr>title = ''Note Added'',
                        description = Some ''Note has been placed on the model.'',
                        destructive = False\<rparr>
                   (s1\<lparr>note_list := note_list s @ [\<lparr>note_position = p, note_text = noteText, note_sprite = sprite\<rparr>]\<rparr>))))"

text \<open>
  \<^verbatim>\<open>handleClick\<close>: nothing when the ray hits nothing; otherwise the tool of the current
  mode at the first intersection point. The brushes run with the default radius 1 and
  strength 0.5.
\<close>

definition handleClick :: "ClickEvent \<Rightarrow> ViewerState \<Rightarrow> ViewerState" where
  "handleClick ev s =
     (case hit ev of
        None \<Rightarrow> s
      | Some intersectionPoint \<Rightarrow>
          (case mode s of
             Push \<Rightarrow> applyDeformation intersectionPoint 1 (1 / 2) s
           | Smooth \<Rightarrow> applyDeformation intersectionPoint 1 (1 / 2) s
           | Scale \<Rightarrow> applyDeformation intersectionPoint 1 (1 / 2) s
           | Margin \<Rightarrow>
               createMarginLine (marginPoints s @ [intersectionPoint])
                 (s\<lparr>marginPoints := marginPoints s @ [intersectionPoint]\<rparr>)
           | Occlusal \<Rightarrow>
               toast \<lparr>title = ''Occlusal Analysis'',
                      description = Some ''Analysis complete. Red areas indicate close contacts.'',
                      destructive = False\<rparr>
                 (performOcclusalAnalysis intersectionPoint s)
           | Section \<Rightarrow>
               toast \<lparr>title = ''Cross Section'',
                      description = Some ''Cross section view created. Use the slider to adjust position.'',
                      destructive = False\<rparr>
                 (setCrossSectionValue 0 (createCrossSection intersectionPoint (Vector3 0 1 0) s))
           | Measure \<Rightarrow> handleClick_measure (context2d ev) intersectionPoint s
           | Pick \<Rightarrow> snd (sceneAdd (PointMesh intersectionPoint) s)
           | Note \<Rightarrow> handleClick_note (context2d ev) (promptText ev) intersectionPoint s
           | View \<Rightarrow> s))"

section \<open>Events\<close>




section \<open>What the scene shows\<close>


definition isMeasureLine :: "Object3D \<Rightarrow> bool" where
  "isMeasureLine c = (case snd c of MeasureLine _ _ \<Rightarrow> True | _ \<Rightarrow> False)"

definition isDistanceLabel :: "Object3D \<Rightarrow> bool" where
  "isDistanceLabel c = (case snd c of DistanceLabel _ \<Rightarrow> True | _ \<Rightarrow> False)"

text \<open>
  The measurement lines and distance labels in the scene are the line and the label
  that \<^verbatim>\<open>measureLine\<close> holds, and no others. This is so after the set-up and after a
  load, and the measure tool keeps it so.
\<close>

definition measurementShown :: "ViewerState \<Rightarrow> bool" where
  "measurementShown s \<longleftrightarrow>
     filter isMeasureLine (children s) = (case measureLine s of None \<Rightarrow> [] | Some ml \<Rightarrow> [line ml]) \<and>
     filter isDistanceLabel (children s) = (case measureLine s of None \<Rightarrow> [] | Some ml \<Rightarrow> [label ml])"




text \<open>
  What the specification asks of a load: the margin line (points and polyline), the
  measurement pair (pending start point, line and label), the cross-section plane and
  the occlusal colouring are gone afterwards.
\<close>

definition derivedStateInvalidated :: "ViewerState \<Rightarrow> bool" where
  "derivedStateInvalidated s \<longleftrightarrow>
     marginPoints s = [] \<and> marginLine s = None \<and>
     measureStartPoint s = None \<and> measureLine s = None \<and>
     crossSectionPlane s = None \<and> planeHelper s = None \<and>
     (case activeMesh s of None \<Rightarrow> True | Some (obj, m) \<Rightarrow> \<not> vertexColors (material m))"





section \<open>Example data\<close>

text \<open>
  A file with one triangle in the plane \<open>z = 0\<close>, with the unit normals a decoder
  supplies for it, and the viewer right after loading it in a given mode.
\<close>

definition exampleGeometry :: BufferGeometry where
  "exampleGeometry =
     \<lparr>position = [Vector3 0 0 0, Vector3 1 0 0, Vector3 0 1 0],
      normal = [Vector3 0 0 1, Vector3 0 0 1, Vector3 0 0 1],
      color = None\<rparr>"

definition exampleState :: "Mode \<Rightarrow> ViewerState" where
  "exampleState m = loadSTL (Some exampleGeometry) (initialState m)"

text \<open>A triangle with two vertices closer to each other than the neighbour threshold.\<close>

definition closeGeometry :: BufferGeometry where
  "closeGeometry =
     \<lparr>position = [Vector3 0 0 0, Vector3 (1 / 16) 0 0, Vector3 0 10 0],
      normal = [Vector3 0 0 1, Vector3 0 0 1, Vector3 0 0 1],
      color = None\<rparr>"


text \<open>A click that hits the scene at \<open>p\<close>, in a browser that gives canvas contexts.\<close>

definition click :: "Vector3 \<Rightarrow> ClickEvent" where
  "click p = \<lparr>hit = Some p, context2d = True, promptText = None\<rparr>"


section \<open>Distances\<close>

lemma distanceTo_eqI: "0 \<le> d \<Longrightarrow> d * d = distanceToSquared v w \<Longrightarrow> distanceTo v w = d"
  unfolding distanceTo_def by (metis real_sqrt_abs2 abs_of_nonneg)


section \<open>Rounding\<close>

lemma pow2_powr: "pow2 e = 2 powr of_int e"
  by (simp add: pow2_def powr_int)

lemma pow2_pos: "0 < pow2 e"
  by (simp add: pow2_def)

lemma pow2_add: "pow2 (a + b) = pow2 a * pow2 b"
  by (simp add: pow2_powr powr_add)

lemma pow2_nat: "pow2 (int k) = 2 ^ k"
  by (simp add: pow2_def)

lemma exponentOf_eqI:
  assumes "x \<noteq> 0" "pow2 e \<le> \<bar>x\<bar>" "\<bar>x\<bar> < pow2 (e + 1)"
  shows "exponentOf x = e"
proof -
  have "0 < \<bar>x\<bar>" using assms(1) by simp
  moreover have "2 powr of_int e \<le> \<bar>x\<bar>" using assms(2) by (simp add: pow2_powr)
  moreover have "\<bar>x\<bar> < 2 powr (of_int e + 1)" using assms(3) by (simp add: pow2_powr)
  ultimately show ?thesis
    unfolding exponentOf_def by (subst floor_log_eq_powr_iff) simp_all
qed

lemma roundTiesToEven_eqI:
  assumes "of_int n - 1 / 2 < y" "y < of_int n + 1 / 2"
  shows "roundTiesToEven y = n"
proof -
  have f: "\<lfloor>y\<rfloor> = n \<or> \<lfloor>y\<rfloor> = n - 1" using assms by linarith
  then show ?thesis
  proof
    assume a: "\<lfloor>y\<rfloor> = n"
    then have "y - of_int n < 1 / 2" using assms by linarith
    with a show ?thesis by (simp add: roundTiesToEven_def Let_def)
  next
    assume a: "\<lfloor>y\<rfloor> = n - 1"
    then have "1 / 2 < y - of_int (n - 1)" using assms by simp
    with a show ?thesis by (simp add: roundTiesToEven_def Let_def)
  qed
qed

lemma roundTiesToEven_of_int: "roundTiesToEven (of_int n) = n"
  by (rule roundTiesToEven_eqI) simp_all

lemma roundTo_eqI:
  assumes "x \<noteq> 0" "pow2 e \<le> \<bar>x\<bar>" "\<bar>x\<bar> < pow2 (e + 1)"
    and "roundTiesToEven (x / pow2 (max e emin - int p + 1)) = n"
  shows "roundTo p emin x = of_int n * pow2 (max e emin - int p + 1)"
  using assms(1,4) exponentOf_eqI [OF assms(1,2,3)]
  by (simp add: roundTo_def Let_def)

lemma round64_one: "round64 1 = 1"
proof -
  have "round64 1 = of_int 4503599627370496 * pow2 (max 0 (- 1022) - int 53 + 1)"
    unfolding round64_def
    by (rule roundTo_eqI) (simp_all add: pow2_def roundTiesToEven_def Let_def)
  then show ?thesis by (simp add: pow2_def)
qed

text \<open>
  A number \<open>n * 2 ^ (e - p + 1)\<close> with \<open>2 ^ (p - 1) \<le> \<bar>n\<bar> < 2 ^ p\<close> and \<open>e\<close> not below
  the least exponent is a number of the format: rounding leaves it as it is.
\<close>

lemma roundTo_grid:
  assumes x: "x = of_int n * pow2 (e - int p + 1)"
    and n: "2 ^ (p - 1) \<le> \<bar>n\<bar>" "\<bar>n\<bar> < 2 ^ p"
    and e: "emin \<le> e" and p: "0 < p"
  shows "roundTo p emin x = x"
proof -
  let ?q = "pow2 (e - int p + 1)"
  have q: "0 < ?q" by (rule pow2_pos)
  have "n \<noteq> 0" using n(1) by auto
  then have x0: "x \<noteq> 0" using x q by simp
  have ax: "\<bar>x\<bar> = of_int \<bar>n\<bar> * ?q" using x q by (simp add: abs_mult)
  have "pow2 e = pow2 (int (p - 1)) * ?q"
    using p by (simp add: pow2_add [symmetric] of_nat_diff)
  also have "\<dots> = 2 ^ (p - 1) * ?q" by (simp only: pow2_nat)
  also have "\<dots> \<le> of_int \<bar>n\<bar> * ?q"
  proof -
    have "(2::real) ^ (p - 1) \<le> of_int \<bar>n\<bar>"
      using n(1) by (metis of_int_le_iff of_int_numeral of_int_power)
    then show ?thesis using q by simp
  qed
  finally have lo: "pow2 e \<le> \<bar>x\<bar>" by (simp add: ax)
  have "of_int \<bar>n\<bar> * ?q < 2 ^ p * ?q"
  proof -
    have "of_int \<bar>n\<bar> < (2::real) ^ p"
      using n(2) by (metis of_int_less_iff of_int_numeral of_int_power)
    then show ?thesis using q by simp
  qed
  also have "2 ^ p * ?q = pow2 (int p) * ?q" by (simp only: pow2_nat)
  also have "\<dots> = pow2 (e + 1)" by (simp add: pow2_add [symmetric])
  finally have hi: "\<bar>x\<bar> < pow2 (e + 1)" by (simp add: ax)
  have m: "max e emin = e" using e by simp
  have "roundTiesToEven (x / pow2 (max e emin - int p + 1)) = n"
    using q by (simp add: m x roundTiesToEven_of_int)
  from roundTo_eqI [OF x0 lo hi this] show ?thesis
    by (simp add: m x)
qed

lemma pow2_diff: "pow2 a / pow2 b = pow2 (a - b)"
  by (simp add: pow2_powr powr_diff)

text \<open>A binary32 number is a binary64 number.\<close>

lemma round32_round64:
  assumes "round32 x = x"
  shows "round64 x = x"
proof (cases "x = 0")
  case True
  then show ?thesis by (simp add: round64_def roundTo_def)
next
  case False
  define e where "e = exponentOf x"
  define a where "a = max e (- 126) - int 24 + 1"
  define b where "b = max e (- 1022) - int 53 + 1"
  define n where "n = roundTiesToEven (x / pow2 a)"
  have x: "x = of_int n * pow2 a"
    using assms False by (simp add: round32_def roundTo_def Let_def e_def n_def a_def)
  have ab: "0 \<le> a - b" by (simp add: a_def b_def)
  have "x / pow2 b = of_int n * pow2 (a - b)"
    by (subst x) (simp add: pow2_diff [symmetric])
  also have "\<dots> = of_int (n * 2 ^ nat (a - b))"
    using ab by (simp add: pow2_def)
  finally have "roundTiesToEven (x / pow2 b) = n * 2 ^ nat (a - b)"
    by (simp only: roundTiesToEven_of_int)
  then have "round64 x = of_int (n * 2 ^ nat (a - b)) * pow2 b"
    using False by (simp add: round64_def roundTo_def Let_def e_def b_def)
  also have "\<dots> = of_int n * (pow2 (a - b) * pow2 b)"
    using ab by (simp add: pow2_def)
  also have "pow2 (a - b) * pow2 b = pow2 a"
    by (simp add: pow2_add [symmetric])
  finally show ?thesis using x by simp
qed

text \<open>
  The numbers of the examples. \<open>1547425 / 2 ^ 87\<close> is the binary32 number nearest to
  \<open>10 ^ -20\<close>; taking \<open>1/2\<close> from it gives \<open>-1/2\<close> in binary64.
\<close>

lemma round64_half: "round64 (1 / 2) = 1 / 2"
  unfolding round64_def
  by (rule roundTo_grid [where n = 4503599627370496 and e = "- 1"]) (simp_all add: pow2_def)

lemma round64_quarter: "round64 (1 / 4) = 1 / 4"
  unfolding round64_def
  by (rule roundTo_grid [where n = 4503599627370496 and e = "- 2"]) (simp_all add: pow2_def)

lemma round64_minus_half: "round64 (- (1 / 2)) = - (1 / 2)"
  unfolding round64_def
  by (rule roundTo_grid [where n = "- 4503599627370496" and e = "- 1"]) (simp_all add: pow2_def)

lemma round32_one: "round32 1 = 1"
  unfolding round32_def
  by (rule roundTo_grid [where n = 8388608 and e = 0]) (simp_all add: pow2_def)

lemma round32_zero: "round32 0 = 0"
  by (simp add: round32_def roundTo_def)

lemma round64_zero: "round64 0 = 0"
  by (simp add: round64_def roundTo_def)

lemma sqrt_quarter: "sqrt (1 / 4) = 1 / 2"
  by (rule real_sqrt_unique) (simp_all add: power2_eq_square)

lemma round32_1e_20: "round32 (1 / 10 ^ 20) = 1547425 / 2 ^ 87"
proof -
  have "round32 (1 / 10 ^ 20) = of_int 12379400 * pow2 (max (- 67) (- 126) - int 24 + 1)"
    unfolding round32_def
  proof (rule roundTo_eqI)
    show "roundTiesToEven (1 / 10 ^ 20 / pow2 (max (- 67) (- 126) - int 24 + 1)) = 12379400"
      by (rule roundTiesToEven_eqI) (simp_all add: pow2_def)
  qed (simp_all add: pow2_def)
  then show ?thesis by (simp add: pow2_def)
qed

lemma round32_tiny: "round32 (1547425 / 2 ^ 87) = 1547425 / 2 ^ 87"
  unfolding round32_def
  by (rule roundTo_grid [where n = 12379400 and e = "- 67"]) (simp_all add: pow2_def)

lemma round64_tiny_minus_half: "round64 (1547425 / 2 ^ 87 - 1 / 2) = - (1 / 2)"
proof -
  have "round64 (1547425 / 2 ^ 87 - 1 / 2) =
        of_int (- 9007199254740992) * pow2 (max (- 2) (- 1022) - int 53 + 1)"
    unfolding round64_def
  proof (rule roundTo_eqI)
    show "roundTiesToEven ((1547425 / 2 ^ 87 - 1 / 2) / pow2 (max (- 2) (- 1022) - int 53 + 1)) =
          - 9007199254740992"
      by (rule roundTiesToEven_eqI) (simp_all add: pow2_def)
  qed (simp_all add: pow2_def)
  then show ?thesis by (simp add: pow2_def)
qed

lemma round32_tiny': "round32 (1547425 / 154742504910672534362390528) = 1547425 / 154742504910672534362390528"
  using round32_tiny by simp

lemma round64_tiny_minus_half':
  "round64 (- (77371252455336267179647839 / 154742504910672534362390528)) = - (1 / 2)"
  using round64_tiny_minus_half by simp

lemma distanceTo64_tiny:
  "distanceTo64 (Vector3 (1547425 / 2 ^ 87) 0 0) (Vector3 (1 / 2) 0 0) = 1 / 2"
  by (simp add: distanceTo64_def Let_def round64_tiny_minus_half' round64_zero round64_quarter
      round64_half sqrt_quarter)

lemma distanceTo64_tiny':
  "distanceTo64 (Vector3 (1547425 / 154742504910672534362390528) 0 0) (Vector3 (1 / 2) 0 0) = 1 / 2"
  using distanceTo64_tiny by simp

lemma distanceTo64_example:
  "distanceTo64 (Vector3 1 0 0) (Vector3 (1 / 2) 0 0) = 1 / 2"
  by (simp add: distanceTo64_def Let_def round64_zero round64_quarter
      round64_half sqrt_quarter)

lemma float32Value_simps: "float32Value 0" "float32Value 1"
  "float32Value (1547425 / 154742504910672534362390528)"
  by (simp_all add: float32Value_def round32_zero round32_one round32_tiny')

section \<open>Neighbours and their average\<close>






section \<open>The deformation pass\<close>

lemma distanceTo_less_tenth: "distanceTo v w < 1 / 10 \<longleftrightarrow> distanceToSquared v w < 1 / 100"
proof -
  have "sqrt (1 / 100) = 1 / 10"
    by (rule real_sqrt_unique) (simp_all add: power2_eq_square)
  then show ?thesis
    unfolding distanceTo_def by (metis real_sqrt_less_iff)
qed

lemma distanceTo_less_tenth': "distanceTo v w * 10 < 1 \<longleftrightarrow> distanceToSquared v w * 100 < 1"
  using distanceTo_less_tenth [of v w] by simp

lemma length_deformVertex:
  "length (deformVertex md p r st nrm i pos) = length pos"
  by (simp add: deformVertex_def Let_def)

lemma deformVertex_nth_other:
  "j \<noteq> i \<Longrightarrow> deformVertex md p r st nrm i pos ! j = pos ! j"
  by (simp add: deformVertex_def Let_def)

lemma length_fold_deformVertex:
  "length (fold (deformVertex md p r st nrm) js pos) = length pos"
  by (induction js arbitrary: pos) (simp_all add: length_deformVertex)

lemma fold_deformVertex_nth_notin:
  "j \<notin> set js \<Longrightarrow> fold (deformVertex md p r st nrm) js pos ! j = pos ! j"
  by (induction js arbitrary: pos) (simp_all add: deformVertex_nth_other)

lemma length_bufferBefore: "length (bufferBefore md p r st nrm i pos) = length pos"
  by (simp add: bufferBefore_def length_fold_deformVertex)

lemma bufferBefore_nth: "bufferBefore md p r st nrm i pos ! i = pos ! i"
  by (simp add: bufferBefore_def fold_deformVertex_nth_notin)

lemma length_deformLoop: "length (deformLoop md p r st nrm pos) = length pos"
  by (simp add: deformLoop_def length_fold_deformVertex)

text \<open>
  What the loop leaves at an index is what its round for this index wrote: the rounds
  before it have not touched the index, and the rounds after it do not either.
\<close>

lemma deformLoop_nth:
  assumes "i < length pos"
  shows "deformLoop md p r st nrm pos ! i =
         deformVertex md p r st nrm i (bufferBefore md p r st nrm i pos) ! i"
proof -
  have split: "[0..<length pos] = [0..<i] @ i # [Suc i..<length pos]"
    using assms by (metis le0 upt_add_eq_append upt_conv_Cons le_add_diff_inverse less_imp_le_nat)
  show ?thesis
    unfolding deformLoop_def bufferBefore_def split
    by (simp add: fold_deformVertex_nth_notin)
qed

text \<open>Outside the smooth brush a round reads no vertex but its own.\<close>

lemma deformVertex_own_vertex:
  assumes "md \<noteq> Smooth" "i < length pos" "i < length pos'" "pos ! i = pos' ! i"
  shows "deformVertex md p r st nrm i pos ! i = deformVertex md p r st nrm i pos' ! i"
  using assms by (cases md) (simp_all add: deformVertex_def Let_def)

lemma deformLoop_snapshot:
  assumes "md \<noteq> Smooth"
  shows "deformLoop md p r st nrm pos = deformSnapshot md p r st nrm pos"
proof (rule nth_equalityI)
  show "length (deformLoop md p r st nrm pos) = length (deformSnapshot md p r st nrm pos)"
    by (simp add: length_deformLoop deformSnapshot_def)
next
  fix i assume "i < length (deformLoop md p r st nrm pos)"
  then have i: "i < length pos" by (simp add: length_deformLoop)
  have "deformLoop md p r st nrm pos ! i =
        deformVertex md p r st nrm i (bufferBefore md p r st nrm i pos) ! i"
    using i by (rule deformLoop_nth)
  also have "\<dots> = deformVertex md p r st nrm i pos ! i"
    using assms i by (intro deformVertex_own_vertex) (simp_all add: length_bufferBefore bufferBefore_nth)
  also have "\<dots> = deformSnapshot md p r st nrm pos ! i"
    using i by (simp add: deformSnapshot_def)
  finally show "deformLoop md p r st nrm pos ! i = deformSnapshot md p r st nrm pos ! i" .
qed

lemma deformVertex_far:
  "\<not> distanceTo (pos ! i) p < r \<Longrightarrow> deformVertex md p r st nrm i pos = pos"
  by (simp add: deformVertex_def Let_def)

text \<open>
  While no vertex below the index \<open>i\<close> lies in range, the loop reaches \<open>i\<close> with the
  buffer as the call found it.
\<close>

lemma bufferBefore_out_of_range:
  assumes "\<forall>j<i. \<not> distanceTo (pos ! j) p < r"
  shows "bufferBefore md p r st nrm i pos = pos"
proof -
  have "fold (deformVertex md p r st nrm) [0..<k] pos = pos" if "k \<le> i" for k
    using that assms by (induction k) (simp_all add: deformVertex_far)
  then show ?thesis by (simp add: bufferBefore_def)
qed

lemma deformVertex_Scale_zero: "deformVertex Scale p r 0 nrm i pos = pos"
proof -
  have "add (multiplyScalar (sub v p) 1) p = v" for v
    by (cases v; cases p) simp
  then show ?thesis by (simp add: deformVertex_def Let_def)
qed

lemma deformLoop_Scale_zero: "deformLoop Scale p r 0 nrm pos = pos"
proof -
  have "fold (deformVertex Scale p r 0 nrm) js pos = pos" for js
    by (induction js) (simp_all add: deformVertex_Scale_zero)
  then show ?thesis by (simp add: deformLoop_def)
qed


subsection \<open>The examples, evaluated\<close>

lemma mode_loadSTL: "mode (loadSTL (Some g) s) = mode s"
  by (simp add: loadSTL_def Let_def)

lemma activeMesh_loadSTL:
  "activeMesh (loadSTL (Some g) s) =
     Some ((nextId s, ModelMesh),
           \<lparr>geometry = g, material = \<lparr>vertexColors = False, clippingPlanes = []\<rparr>,
            mesh_position = sub origin (boundingBoxCenter (position g))\<rparr>)"
  by (simp add: loadSTL_def Let_def)

lemma upt3: "[0..<3] = [0, 1, 2]"
  by (simp add: numeral_3_eq_3)

lemma exampleState_mode: "mode (exampleState md) = md"
  by (simp add: exampleState_def mode_loadSTL initialState_def)

lemma exampleState_activeMesh:
  "activeMesh (exampleState md) =
     Some ((2, ModelMesh),
           \<lparr>geometry = exampleGeometry, material = \<lparr>vertexColors = False, clippingPlanes = []\<rparr>,
            mesh_position = Vector3 (- (1 / 2)) (- (1 / 2)) 0\<rparr>)"
  by (simp add: exampleState_def activeMesh_loadSTL initialState_def exampleGeometry_def
      boundingBoxCenter_def origin_def)

lemma example_distances:
  "distanceTo (Vector3 0 0 0) (Vector3 0 0 0) = 0"
  "distanceTo (Vector3 1 0 0) (Vector3 0 0 0) = 1"
  "distanceTo (Vector3 0 1 0) (Vector3 0 0 0) = 1"
  by (rule distanceTo_eqI; simp)+

lemma close_distances:
  "distanceTo (Vector3 (1 / 16) 0 0) (Vector3 0 0 0) = 1 / 16"
  "distanceTo (Vector3 0 10 0) (Vector3 0 0 0) = 10"
  by (rule distanceTo_eqI; simp)+

lemma example_push_loop:
  "deformLoop Push (Vector3 0 0 0) (1 / 2) (1 / 2) [Vector3 0 0 1, Vector3 0 0 1, Vector3 0 0 1]
     [Vector3 0 0 0, Vector3 1 0 0, Vector3 0 1 0] =
   [Vector3 0 0 (1 / 2), Vector3 1 0 0, Vector3 0 1 0]"
  by (simp add: deformLoop_def upt3 deformVertex_def Let_def example_distances)

text \<open>
  The smooth brush at the first vertex of the close triangle, radius 1 and strength
  0.5. Round 0 moves vertex 0 half way to its only neighbour, vertex 1. Round 1 then
  finds the moved vertex 0 as the neighbour of vertex 1 and moves vertex 1 towards it;
  computed from the buffer as it was at the start, vertex 1 would move towards the old
  vertex 0.
\<close>

lemma close_loop:
  "deformLoop Smooth (Vector3 0 0 0) 1 (1 / 2) nrm [Vector3 0 0 0, Vector3 (1 / 16) 0 0, Vector3 0 10 0] =
   [Vector3 (1 / 32) 0 0, Vector3 (49 / 1024) 0 0, Vector3 0 10 0]"
  by (simp add: deformLoop_def upt3 deformVertex_def Let_def example_distances close_distances
      findNeighborVertices_def distanceTo_less_tenth' calculateAveragePosition_def
      origin_def divideScalar_def)

lemma close_snapshot:
  "deformSnapshot Smooth (Vector3 0 0 0) 1 (1 / 2) nrm [Vector3 0 0 0, Vector3 (1 / 16) 0 0, Vector3 0 10 0] =
   [Vector3 (1 / 32) 0 0, Vector3 (17 / 512) 0 0, Vector3 0 10 0]"
  by (simp add: deformSnapshot_def upt3 deformVertex_def Let_def example_distances close_distances
      findNeighborVertices_def distanceTo_less_tenth' calculateAveragePosition_def
      origin_def divideScalar_def)




subsection \<open>The scale brush in rounded arithmetic\<close>

lemma length_deformVertexScale64:
  "length (deformVertexScale64 p r st i pos) = length pos"
  by (simp add: deformVertexScale64_def Let_def)

lemma deformVertexScale64_other:
  "j \<noteq> i \<Longrightarrow> deformVertexScale64 p r st i pos ! j = pos ! j"
  by (simp add: deformVertexScale64_def Let_def)

lemma fold_deformVertexScale64_length:
  "length (fold (deformVertexScale64 p r st) js pos) = length pos"
  by (induction js arbitrary: pos) (simp_all add: length_deformVertexScale64)

lemma fold_deformVertexScale64_notin:
  "j \<notin> set js \<Longrightarrow> fold (deformVertexScale64 p r st) js pos ! j = pos ! j"
  by (induction js arbitrary: pos) (simp_all add: deformVertexScale64_other)

lemma deformVertexScale64_own:
  assumes "i < length pos" "i < length pos'" "pos ! i = pos' ! i"
  shows "deformVertexScale64 p r st i pos ! i = deformVertexScale64 p r st i pos' ! i"
  using assms by (simp add: deformVertexScale64_def Let_def)

lemma deformLoopScale64_nth:
  assumes "i < length pos"
  shows "deformLoopScale64 p r st pos ! i = deformVertexScale64 p r st i pos ! i"
proof -
  have split: "[0..<length pos] = [0..<i] @ i # [Suc i..<length pos]"
    using assms by (metis le0 upt_add_eq_append upt_conv_Cons le_add_diff_inverse less_imp_le_nat)
  let ?buf = "fold (deformVertexScale64 p r st) [0..<i] pos"
  have "deformLoopScale64 p r st pos ! i = deformVertexScale64 p r st i ?buf ! i"
    unfolding deformLoopScale64_def split by (simp add: fold_deformVertexScale64_notin)
  also have "\<dots> = deformVertexScale64 p r st i pos ! i"
    using assms
    by (intro deformVertexScale64_own)
      (simp_all add: fold_deformVertexScale64_length fold_deformVertexScale64_notin)
  finally show ?thesis .
qed

text \<open>
  The difference from the pick point \<open>(0, 0, 0)\<close> is the stored vertex itself.
\<close>

lemma exactDifference_origin: "float32Vector v \<Longrightarrow> exactDifference v (Vector3 0 0 0)"
  by (cases v) (simp add: float32Vector_def float32Value_def exactDifference_def round32_round64)

lemma scale_zero_exact:
  assumes "float32Vector v" "exactDifference v p"
  shows "setXYZ32 (add64 (multiplyScalar64 (sub64 v p) (round64 (1 + round64 (0 * k)))) p) = v"
  using assms
  by (cases v; cases p)
    (simp add: float32Vector_def float32Value_def exactDifference_def round64_zero round64_one
      round32_round64)

subsection \<open>Claims about a deformation call\<close>

text \<open>
  Claim C1, as amended. With a mesh loaded, one call of \<open>applyDeformation\<close> keeps the
  number of vertices and leaves at every index what the round for this index computed
  from the buffer as the loop had left it on reaching the index (the vertices below it
  already updated, the vertex itself and those above it as at the start of the call).
  In every mode but smooth a round reads only its own vertex, so the result is the one
  computed from the positions at the start of the call, whatever the order of the
  rounds. Afterwards the normals are those computed from the updated positions.
\<close>

theorem applyDeformation_pass:
  assumes "activeMesh s = Some (obj, m)"
  shows "\<exists>m'. activeMesh (applyDeformation p r st s) = Some (obj, m') \<and>
     length (position (geometry m')) = length (position (geometry m)) \<and>
     (\<forall>i < length (position (geometry m)).
        position (geometry m') ! i =
          deformVertex (mode s) p r st (normal (geometry m)) i
            (bufferBefore (mode s) p r st (normal (geometry m)) i (position (geometry m))) ! i) \<and>
     (mode s \<noteq> Smooth \<longrightarrow>
        position (geometry m') =
          deformSnapshot (mode s) p r st (normal (geometry m)) (position (geometry m))) \<and>
     normal (geometry m') = computeVertexNormals (position (geometry m'))"
  using assms
  by (simp add: applyDeformation_def Let_def length_deformLoop deformLoop_nth deformLoop_snapshot)

theorem applyDeformation_pass_witness:
  "activeMesh (exampleState Push) =
     Some ((2, ModelMesh),
           \<lparr>geometry = exampleGeometry, material = \<lparr>vertexColors = False, clippingPlanes = []\<rparr>,
            mesh_position = Vector3 (- (1 / 2)) (- (1 / 2)) 0\<rparr>) \<and>
   (\<exists>m'. activeMesh (applyDeformation (Vector3 0 0 0) (1 / 2) (1 / 2) (exampleState Push)) =
            Some ((2, ModelMesh), m') \<and>
         position (geometry m') = [Vector3 0 0 (1 / 2), Vector3 1 0 0, Vector3 0 1 0] \<and>
         position (geometry m') =
           deformSnapshot Push (Vector3 0 0 0) (1 / 2) (1 / 2) (normal exampleGeometry)
             (position exampleGeometry) \<and>
         normal (geometry m') = computeVertexNormals (position (geometry m')))"
proof -
  have loop: "position (geometry m') = deformSnapshot Push (Vector3 0 0 0) (1 / 2) (1 / 2)
      (normal exampleGeometry) (position exampleGeometry) \<Longrightarrow>
      position (geometry m') = [Vector3 0 0 (1 / 2), Vector3 1 0 0, Vector3 0 1 0]" for m' :: Mesh
    using deformLoop_snapshot [of Push "Vector3 0 0 0" "1 / 2" "1 / 2" "normal exampleGeometry" "position exampleGeometry"]
    by (simp add: exampleGeometry_def example_push_loop)
  show ?thesis
    using applyDeformation_pass [OF exampleState_activeMesh, of "Vector3 0 0 0" "1 / 2" "1 / 2" Push] loop
    by (auto simp: exampleState_activeMesh exampleState_mode)
qed

text \<open>
  Claim C1 as the specification states it fails under the smooth brush: the neighbours
  of a vertex and their average are read from the buffer the loop is writing. On the
  close triangle in smooth mode, a click at \<open>(0, 0, 0)\<close>, where its first vertex lies
  (the brush runs with radius 1 and strength 0.5), leaves vertex 1 at \<open>x = 49/1024\<close>,
  where the positions at the start of the call give \<open>x = 17/512\<close>.
\<close>

theorem applyDeformation_snapshot_counterexample:
  "\<exists>obj m. activeMesh (handleClick (click (Vector3 0 0 0))
                 (loadSTL (Some closeGeometry) (initialState Smooth))) = Some (obj, m) \<and>
      position (geometry m) = [Vector3 (1 / 32) 0 0, Vector3 (49 / 1024) 0 0, Vector3 0 10 0] \<and>
      deformSnapshot Smooth (Vector3 0 0 0) 1 (1 / 2) (normal closeGeometry) (position closeGeometry) =
        [Vector3 (1 / 32) 0 0, Vector3 (17 / 512) 0 0, Vector3 0 10 0] \<and>
      position (geometry m) \<noteq>
        deformSnapshot Smooth (Vector3 0 0 0) 1 (1 / 2) (normal closeGeometry) (position closeGeometry)"
  by (simp add: handleClick_def click_def applyDeformation_def activeMesh_loadSTL mode_loadSTL
      initialState_def Let_def closeGeometry_def close_loop close_snapshot)




text \<open>
  Claim C8, as amended. In exact arithmetic the scale brush with strength 0 writes every
  vertex in range back as \<open>(v - p) * 1 + p\<close>, which is \<open>v\<close> (lemma
  \<open>deformLoop_Scale_zero\<close>). The program computes in binary64 and stores in binary32.
  There a call with strength 0 leaves the position of a vertex as it was when the
  vertex lies at the radius or beyond, and when the difference \<open>v - p\<close> of the stored
  vertex \<open>v\<close> and the pick point \<open>p\<close> is computed without rounding, as it is for the
  pick point \<open>(0, 0, 0)\<close> (lemma \<open>exactDifference_origin\<close>). It is not so for every
  pick point: where \<open>v - p\<close> is rounded, \<open>(v - p) + p\<close> can differ from \<open>v\<close>.
\<close>

theorem deformLoopScale64_zero:
  assumes "i < length pos"
    and "\<not> distanceTo64 (pos ! i) p < r \<or> (float32Vector (pos ! i) \<and> exactDifference (pos ! i) p)"
  shows "deformLoopScale64 p r 0 pos ! i = pos ! i"
proof -
  have "deformVertexScale64 p r 0 i pos ! i = pos ! i"
  proof (cases "distanceTo64 (pos ! i) p < r")
    case False
    then show ?thesis by (simp add: deformVertexScale64_def Let_def)
  next
    case True
    with assms(2) have "float32Vector (pos ! i)" "exactDifference (pos ! i) p" by simp_all
    then show ?thesis
      using True assms(1) scale_zero_exact by (simp add: deformVertexScale64_def Let_def)
  qed
  then show ?thesis using assms(1) by (simp add: deformLoopScale64_nth)
qed

text \<open>
  On the example triangle, with the pick point \<open>(1/2, 0, 0)\<close> and radius 1, vertex 1
  lies in range at distance \<open>1/2\<close> and stays where it is.
\<close>

theorem deformLoopScale64_zero_witness:
  "distanceTo64 ([Vector3 0 0 0, Vector3 1 0 0, Vector3 0 1 0] ! 1) (Vector3 (1 / 2) 0 0) < 1 \<and>
   deformLoopScale64 (Vector3 (1 / 2) 0 0) 1 0 [Vector3 0 0 0, Vector3 1 0 0, Vector3 0 1 0] ! 1 =
     Vector3 1 0 0"
  using deformLoopScale64_zero [of 1 "[Vector3 0 0 0, Vector3 1 0 0, Vector3 0 1 0]"
      "Vector3 (1 / 2) 0 0" 1]
  by (simp add: distanceTo64_example float32Vector_def float32Value_simps exactDifference_def
      round64_half round64_zero)

text \<open>
  Claim C8 as the specification states it fails: a vertex stored at
  \<open>x = 1547425 / 2 ^ 87\<close> (the binary32 number nearest to \<open>10 ^ -20\<close>), the pick point
  \<open>(1/2, 0, 0)\<close>, radius 1 and strength 0. The difference \<open>x - 1/2\<close> rounds to \<open>-1/2\<close>,
  the vertex is in range at distance \<open>1/2\<close>, and \<open>-1/2 * 1 + 1/2 = 0\<close> is written back:
  the call moves the vertex from \<open>x\<close> to 0.
\<close>

theorem deformLoopScale64_zero_counterexample:
  "float32Vector (Vector3 (1547425 / 2 ^ 87) 0 0) \<and>
   deformLoopScale64 (Vector3 (1 / 2) 0 0) 1 0 [Vector3 (1547425 / 2 ^ 87) 0 0] =
     [Vector3 0 0 0] \<and>
   deformLoopScale64 (Vector3 (1 / 2) 0 0) 1 0 [Vector3 (1547425 / 2 ^ 87) 0 0] \<noteq>
     [Vector3 (1547425 / 2 ^ 87) 0 0]"
  by (simp add: deformLoopScale64_def deformVertexScale64_def Let_def distanceTo64_tiny'
      float32Vector_def float32Value_simps round64_tiny_minus_half' round64_zero round64_one
      round64_half round64_minus_half round32_zero)




section \<open>Occlusal analysis\<close>









section \<open>The cross-section plane\<close>

text \<open>
  Claim C7, as amended. In section mode with a mesh loaded, after a section pick at \<open>p\<close>
  with normal \<open>n\<close> (the plane is created and the slider value reset to 0) the slider
  value is 0 and the plane has normal \<open>n\<close>; its constant is \<open>- (p \<cdot> n)\<close> when the
  slider already stood at 0 and 0 when the reset moved it. Setting the slider to a
  value \<open>v\<close> other than 0 then makes the constant exactly \<open>- v\<close>, whatever \<open>p\<close> and the
  constant at creation were. Setting it to 0, the value it holds, changes nothing.
\<close>

theorem crossSection_offset:
  assumes "mode s = Section" "activeMesh s = Some (obj, m)"
  shows "crossSectionValue (setCrossSectionValue 0 (createCrossSection p n s)) = 0 \<and>
     (\<exists>pl. crossSectionPlane (setCrossSectionValue 0 (createCrossSection p n s)) = Some pl \<and>
           plane_normal pl = n \<and>
           plane_constant pl = (if crossSectionValue s = 0 then - dot p n else 0)) \<and>
     (v \<noteq> 0 \<longrightarrow>
        (\<exists>pl. crossSectionPlane
                 (setCrossSectionValue v (setCrossSectionValue 0 (createCrossSection p n s))) = Some pl \<and>
              plane_normal pl = n \<and> plane_constant pl = - v)) \<and>
     setCrossSectionValue 0 (setCrossSectionValue 0 (createCrossSection p n s)) =
       setCrossSectionValue 0 (createCrossSection p n s)"
  using assms
  by (simp add: setCrossSectionValue_def createCrossSection_def crossSectionEffect_def
      sceneAdd_def sceneRemove_def Let_def split: option.split)

lemma exampleState_crossSectionValue: "crossSectionValue (exampleState md) = 0"
  by (simp add: exampleState_def loadSTL_def initialState_def Let_def)

lemma exampleState_planeHelper: "planeHelper (exampleState md) = None"
  by (simp add: exampleState_def loadSTL_def initialState_def Let_def)

theorem crossSection_offset_witness:
  "mode (exampleState Section) = Section \<and>
   (\<exists>pl. crossSectionPlane
           (setCrossSectionValue 0 (createCrossSection (Vector3 0 1 0) (Vector3 0 1 0) (exampleState Section))) = Some pl \<and>
         plane_constant pl = - 1) \<and>
   (\<exists>pl. crossSectionPlane
           (setCrossSectionValue (5 / 2)
              (setCrossSectionValue 0 (createCrossSection (Vector3 0 1 0) (Vector3 0 1 0) (exampleState Section)))) = Some pl \<and>
         plane_normal pl = Vector3 0 1 0 \<and> plane_constant pl = - (5 / 2))"
  using crossSection_offset [OF exampleState_mode exampleState_activeMesh, of "Vector3 0 1 0" "Vector3 0 1 0" "5 / 2"]
    exampleState_crossSectionValue [of Section]
  by (auto simp: exampleState_mode)

text \<open>
  Claim C7 as the specification states it fails at \<open>v = 0\<close>. After the first section
  pick at \<open>(0, 1, 0)\<close> on the example mesh the slider stands at 0 and the plane's
  constant is \<open>-1\<close>; setting the slider to 0 is no change of the effect's dependencies,
  the effect does not run, and the constant stays \<open>-1\<close> where the claim gives \<open>-0\<close>.
\<close>

theorem crossSection_offset_zero_counterexample:
  "\<exists>pl. crossSectionPlane
          (setCrossSectionValue 0
             (handleClick \<lparr>hit = Some (Vector3 0 1 0), context2d = True, promptText = None\<rparr>
                (exampleState Section))) = Some pl \<and>
        plane_constant pl = - 1 \<and> plane_constant pl \<noteq> - 0"
  by (simp add: handleClick_def exampleState_mode exampleState_activeMesh
      exampleState_crossSectionValue exampleState_planeHelper toast_def
      setCrossSectionValue_def createCrossSection_def crossSectionEffect_def
      sceneAdd_def sceneRemove_def Let_def)

section \<open>Loading a new mesh\<close>

lemma filter_remove1_other: "\<not> Q x \<Longrightarrow> filter Q (remove1 x xs) = filter Q xs"
  by (induction xs) auto

text \<open>Clearing the meshes of earlier files leaves every other child of the scene in place.\<close>

lemma clearPreviousModel_keeps:
  "filter (\<lambda>c. \<not> isPreviousModel c) (clearPreviousModel cs) = filter (\<lambda>c. \<not> isPreviousModel c) cs"
proof -
  have "filter (\<lambda>c. \<not> isPreviousModel c)
          (fold (\<lambda>k cs'. if k < length cs' \<and> isPreviousModel (cs' ! k) then remove1 (cs' ! k) cs' else cs') ks cs) =
        filter (\<lambda>c. \<not> isPreviousModel c) cs" for ks
    by (induction ks arbitrary: cs) (simp_all add: filter_remove1_other)
  then show ?thesis by (simp add: clearPreviousModel_def)
qed

text \<open>
  Claim C3, as amended. Loading a file that decodes makes a fresh mesh the active one,
  with the decoded geometry and a fresh material that shows no vertex colours and clips
  by no plane, so the occlusal colouring and the clipping of the former mesh are not
  carried over. It leaves the margin points and the margin line, the pending
  measurement start point, the measurement line and label, the cross-section plane, its
  helper and the slider value, and the notes as they were, and it leaves in the scene
  every object that is not the mesh of an earlier file.
\<close>

theorem loadSTL_keeps_derived_state:
  "marginPoints (loadSTL (Some g) s) = marginPoints s \<and>
   marginLine (loadSTL (Some g) s) = marginLine s \<and>
   measureStartPoint (loadSTL (Some g) s) = measureStartPoint s \<and>
   measureLine (loadSTL (Some g) s) = measureLine s \<and>
   crossSectionPlane (loadSTL (Some g) s) = crossSectionPlane s \<and>
   planeHelper (loadSTL (Some g) s) = planeHelper s \<and>
   crossSectionValue (loadSTL (Some g) s) = crossSectionValue s \<and>
   note_list (loadSTL (Some g) s) = note_list s \<and>
   filter (\<lambda>c. \<not> isPreviousModel c) (children (loadSTL (Some g) s)) =
     filter (\<lambda>c. \<not> isPreviousModel c) (children s) \<and>
   activeMesh (loadSTL (Some g) s) =
     Some ((nextId s, ModelMesh),
           \<lparr>geometry = g, material = \<lparr>vertexColors = False, clippingPlanes = []\<rparr>,
            mesh_position = sub origin (boundingBoxCenter (position g))\<rparr>)"
proof -
  have new: "isPreviousModel (nextId s, ModelMesh)"
    by (simp add: isPreviousModel_def)
  show ?thesis
    by (simp add: loadSTL_def Let_def clearPreviousModel_keeps new)
qed

lemma margin_two_clicks:
  "handleClick (click (Vector3 1 0 0))
     (handleClick (click (Vector3 0 0 0)) (exampleState Margin)) =
   (exampleState Margin)
     \<lparr>nextId := 4,
      children := [(0, AmbientLight), (1, DirectionalLight), (2, ModelMesh),
                   (3, MarginPolyline [Vector3 0 0 0, Vector3 1 0 0])],
      marginLine := Some \<lparr>points = [Vector3 0 0 0, Vector3 1 0 0],
                          margin_line = (3, MarginPolyline [Vector3 0 0 0, Vector3 1 0 0])\<rparr>,
      marginPoints := [Vector3 0 0 0, Vector3 1 0 0]\<rparr>"
  by (simp add: handleClick_def click_def exampleState_def loadSTL_def initialState_def Let_def
      createMarginLine_def sceneAdd_def sceneRemove_def clearPreviousModel_def isPreviousModel_def)

theorem loadSTL_keeps_derived_state_witness:
  "marginPoints
     (loadSTL (Some closeGeometry)
        (handleClick (click (Vector3 1 0 0)) (handleClick (click (Vector3 0 0 0)) (exampleState Margin)))) =
     [Vector3 0 0 0, Vector3 1 0 0] \<and>
   marginLine
     (loadSTL (Some closeGeometry)
        (handleClick (click (Vector3 1 0 0)) (handleClick (click (Vector3 0 0 0)) (exampleState Margin)))) =
     Some \<lparr>points = [Vector3 0 0 0, Vector3 1 0 0],
           margin_line = (3, MarginPolyline [Vector3 0 0 0, Vector3 1 0 0])\<rparr> \<and>
   children
     (loadSTL (Some closeGeometry)
        (handleClick (click (Vector3 1 0 0)) (handleClick (click (Vector3 0 0 0)) (exampleState Margin)))) =
     [(0, AmbientLight), (1, DirectionalLight),
      (3, MarginPolyline [Vector3 0 0 0, Vector3 1 0 0]), (4, ModelMesh)]"
  using loadSTL_keeps_derived_state [of closeGeometry
      "handleClick (click (Vector3 1 0 0)) (handleClick (click (Vector3 0 0 0)) (exampleState Margin))"]
  unfolding margin_two_clicks
  by (simp add: loadSTL_def Let_def clearPreviousModel_def isPreviousModel_def numeral_eq_Suc)

text \<open>
  Claim C3 as the specification states it fails. Two margin picks on the example mesh
  leave two margin points and a polyline; after a second file is loaded the points, the
  margin line and the polyline in the scene are all still there.
\<close>

theorem loadSTL_stale_margin_counterexample:
  "marginPoints
     (loadSTL (Some exampleGeometry)
        (handleClick (click (Vector3 1 0 0))
           (handleClick (click (Vector3 0 0 0))
              (exampleState Margin)))) = [Vector3 0 0 0, Vector3 1 0 0] \<and>
   (3, MarginPolyline [Vector3 0 0 0, Vector3 1 0 0]) \<in> set (children
     (loadSTL (Some exampleGeometry)
        (handleClick (click (Vector3 1 0 0))
           (handleClick (click (Vector3 0 0 0))
              (exampleState Margin))))) \<and>
   \<not> derivedStateInvalidated
     (loadSTL (Some exampleGeometry)
        (handleClick (click (Vector3 1 0 0))
           (handleClick (click (Vector3 0 0 0))
              (exampleState Margin))))"
  unfolding margin_two_clicks
  by (simp add: loadSTL_def Let_def derivedStateInvalidated_def clearPreviousModel_def
      isPreviousModel_def numeral_eq_Suc)

section \<open>The measurement tool\<close>








subsection \<open>The scene in reachable states\<close>





















subsection \<open>What a label shows\<close>








text \<open>Some values: a tie goes up, and the sign of a negative number is kept.\<close>

lemma toFixed2_examples:
  "toFixed2 0 = ''0.00''"
  "toFixed2 (1 / 8) = ''0.13''"
  "toFixed2 (1249 / 100) = ''12.49''"
  "toFixed2 (- (1 / 1000)) = ''-0.00''"
  by (simp_all add: toFixed2_def Let_def showNat.simps digitChar_def)

text \<open>From \<open>10 ^ 21\<close> on: \<open>1e+21\<close> and \<open>1.5e+21\<close>.\<close>

lemma round64_10_21: "round64 (10 ^ 21) = 10 ^ 21"
  unfolding round64_def
  by (rule roundTo_grid [where n = 7629394531250000 and e = 69]) (simp_all add: pow2_def)



lemma round64_15e20: "round64 (15 * 10 ^ 20) = 15 * 10 ^ 20"
  unfolding round64_def
  by (rule roundTo_grid [where n = 5722045898437500 and e = 70]) (simp_all add: pow2_def)

lemma round64_2e21: "round64 (2 * 10 ^ 21) = 2 * 10 ^ 21"
  unfolding round64_def
  by (rule roundTo_grid [where n = 7629394531250000 and e = 70]) (simp_all add: pow2_def)

lemma showNat_15e20: "showNat (15 * 10 ^ 20) = ''1500000000000000000000''"
  by (simp add: showNat.simps digitChar_def)

lemma toFixed2_15e20: "toFixed2 (15 * 10 ^ 20) = ''1.5e+21''"
proof -
  let ?x = "15 * 10 ^ 20 :: real"
  have n: "length (showNat (nat \<lfloor>?x\<rfloor>)) = 22"
  proof -
    have "nat \<lfloor>?x\<rfloor> = 15 * 10 ^ 20" by simp
    then show ?thesis by (simp only: showNat_15e20) simp
  qed
  have up: "[1..<Suc 22] = 1 # 2 # [3..<23]" by (simp add: upt_conv_Cons)
  have "digitCandidates ?x 22 =
        (1, 2) # (1, 1) # (2, 15) # (2, 16) # concat (map (\<lambda>k. map (Pair k)
          (closestFirst ?x (10 ^ (22 - k)) (nat \<lfloor>?x / 10 ^ (22 - k)\<rfloor>))) [3..<23])"
    unfolding digitCandidates_def up by (simp add: closestFirst_def Let_def)
  moreover have "\<not> roundTrips ?x 22 (1, 2)"
    using round64_2e21 by (simp add: roundTrips_def)
  moreover have "\<not> roundTrips ?x 22 (1, 1)"
    using round64_10_21 by (simp add: roundTrips_def)
  moreover have "roundTrips ?x 22 (2, 15)"
    using round64_15e20 by (simp add: roundTrips_def)
  ultimately have "shortestDigits ?x 22 = (2, 15)"
    by (simp add: shortestDigits_def)
  then have "exponentNotation ?x = ''1.5e+21''"
    unfolding exponentNotation_def n by (simp add: Let_def showNat.simps digitChar_def)
  moreover have "round64 \<bar>?x\<bar> = ?x"
    using round64_15e20 by simp
  ultimately show ?thesis
    unfolding toFixed2_def Let_def by (simp only:) simp
qed


subsection \<open>The two clicks of a measurement\<close>




lemma exampleState_children:
  "children (exampleState md) = [(0, AmbientLight), (1, DirectionalLight), (2, ModelMesh)]"
  "nextId (exampleState md) = 3"
  "measureStartPoint (exampleState md) = None"
  "measureLine (exampleState md) = None"
  by (simp_all add: exampleState_def loadSTL_def initialState_def Let_def clearPreviousModel_def
      isPreviousModel_def)

lemma exampleState_measurementShown: "measurementShown (exampleState md)"
  by (simp add: measurementShown_def exampleState_children isMeasureLine_def isDistanceLabel_def)





end
